theory Spec2Isabelle
  imports Complex_Main "HOL-Library.Word" "HOL-Library.List_Lexorder" "HOL-Library.Char_ord"
begin

section \<open>Values of the Go program\<close>

text \<open>
  The package \<^verbatim>\<open>module\<close> (google.golang.org/appengine/module) is embedded function by
  function. Strings are byte lists; with \<open>HOL-Library.List_Lexorder\<close> and
  \<open>HOL-Library.Char_ord\<close> the order \<open><\<close> on them is the bytewise lexicographic order
  that Go's \<^verbatim>\<open><\<close> on strings computes. \<^verbatim>\<open>int64\<close> is a 64-bit word, and so is \<^verbatim>\<open>int\<close>:
  the conversions \<^verbatim>\<open>int(...)\<close> and \<^verbatim>\<open>int64(...)\<close> of the source are the identity on
  a 64-bit target.
\<close>

type_synonym int64 = "64 word"
type_synonym go_int = "64 word"

text \<open>
  A \<^verbatim>\<open>float64\<close> is kept as what the comparison operators of Go observe of it: a NaN,
  an infinity, or a finite value (both zeros are \<open>Fin 0\<close>, as \<^verbatim>\<open>-0.0 == 0.0\<close> holds).
  \<open>f64_gt\<close> is \<^verbatim>\<open>>\<close> and \<open>f64_eq\<close> is \<^verbatim>\<open>==\<close>: every comparison with a NaN is false.
\<close>

datatype float64 = NaN | NegInf | Fin real | PosInf

fun f64_gt :: "float64 \<Rightarrow> float64 \<Rightarrow> bool" where
  "f64_gt (Fin x) (Fin y) = (y < x)"
| "f64_gt (Fin x) NegInf = True"
| "f64_gt PosInf (Fin y) = True"
| "f64_gt PosInf NegInf = True"
| "f64_gt _ _ = False"

definition f64_eq :: "float64 \<Rightarrow> float64 \<Rightarrow> bool" where
  "f64_eq a b = (a \<noteq> NaN \<and> a = b)"

text \<open>
  An \<^verbatim>\<open>error\<close> value: a \<^verbatim>\<open>*googleapi.Error\<close> with its status code and message, an error
  that is only a text (\<^verbatim>\<open>fmt.Errorf\<close> without an error argument, or any other error type
  of a collaborator), or the error \<^verbatim>\<open>fmt.Errorf(prefix + "%v", err)\<close> builds around
  another one. The type assertion \<^verbatim>\<open>err.(*googleapi.Error)\<close> succeeds on the first
  constructor only.
\<close>

datatype go_error =
    GoogleapiError (Code: int) (Message: string)
  | ErrorString string
  | ErrorWrap string go_error

text \<open>A function that dereferences a nil pointer panics instead of returning.\<close>

datatype 'a outcome = Panic | Return 'a

subsection \<open>Resources of the administrative API\<close>

record ManualScaling =
  Instances :: int64

record BasicScaling =
  MaxInstances :: int64

record AutomaticScaling =
  MaxIdleInstances :: int64

record TrafficSplit =
  Allocations :: "(string \<times> float64) list option"

record Service =
  Id :: string
  Split :: "TrafficSplit option"

record Version =
  Id :: string
  ServingStatus :: string
  ManualScaling :: "ManualScaling option"
  BasicScaling :: "BasicScaling option"
  AutomaticScaling :: "AutomaticScaling option"

text \<open>
  \<open>Allocations\<close> is a \<^verbatim>\<open>map[string]float64\<close>: \<open>None\<close> is the nil map, and the list holds
  the entries of the map in the order in which the \<^verbatim>\<open>range\<close> loop of this call visits
  them (an order Go leaves unspecified). Two enumerations of one map are two lists with
  the same set of entries.
\<close>

text \<open>The composite literal \<^verbatim>\<open>&admin.Version{}\<close>: every field has its zero value.\<close>

definition Version_zero :: Version where
  "Version_zero =
     \<lparr>Id = [], ServingStatus = [], ManualScaling = None, BasicScaling = None,
      AutomaticScaling = None\<rparr>"

record APIService =
  UserAgent :: string

subsection \<open>Messages of the legacy modules service\<close>

text \<open>Optional protocol-buffer fields are options: \<open>None\<close> is the nil pointer.\<close>

datatype pb_request =
    GetModulesRequest
  | GetNumInstancesRequest "string option" "string option"
  | SetNumInstancesRequest "string option" "string option" "int64 option"
  | GetVersionsRequest "string option"
  | GetDefaultVersionRequest "string option"
  | StartModuleRequest "string option" "string option"
  | StopModuleRequest "string option" "string option"

subsection \<open>The collaborators\<close>

text \<open>
  Everything outside the package is a field of \<open>world\<close>: \<open>Getenv\<close> is \<^verbatim>\<open>os.Getenv\<close> at the
  moment of the call (the empty string for a variable that is not present), \<open>VersionID\<close>
  is \<^verbatim>\<open>appengine.VersionID(c)\<close>, the \<open>Call_\<close> fields are \<^verbatim>\<open>internal.Call(c, "modules",
  method, req, res)\<close> for each method, giving the fields the response was filled with
  and the error, \<open>NewService\<close> is \<^verbatim>\<open>admin.NewService\<close> with the user agent it is given,
  and the remaining fields are the \<^verbatim>\<open>Do()\<close> of the calls of the administrative API.
\<close>

type_synonym environ = "string \<Rightarrow> string"

record world =
  Getenv :: environ
  VersionID :: string
  Call_GetModules :: "pb_request \<Rightarrow> string list \<times> go_error option"
  Call_GetNumInstances :: "pb_request \<Rightarrow> int64 option \<times> go_error option"
  Call_SetNumInstances :: "pb_request \<Rightarrow> go_error option"
  Call_GetVersions :: "pb_request \<Rightarrow> string list \<times> go_error option"
  Call_GetDefaultVersion :: "pb_request \<Rightarrow> string option \<times> go_error option"
  Call_StartModule :: "pb_request \<Rightarrow> go_error option"
  Call_StopModule :: "pb_request \<Rightarrow> go_error option"
  NewService :: "string \<Rightarrow> go_error option"
  Services_List :: "APIService \<Rightarrow> string \<Rightarrow> go_error + Service list"
  Services_Get :: "APIService \<Rightarrow> string \<Rightarrow> string \<Rightarrow> go_error + Service"
  Versions_List :: "APIService \<Rightarrow> string \<Rightarrow> string \<Rightarrow> go_error + Version list"
  Versions_Get :: "APIService \<Rightarrow> string \<Rightarrow> string \<Rightarrow> string \<Rightarrow> go_error + Version"
  Versions_Patch ::
    "APIService \<Rightarrow> string \<Rightarrow> string \<Rightarrow> string \<Rightarrow> Version \<Rightarrow> string \<Rightarrow> go_error option"

text \<open>
  Every function that reaches a collaborator returns, before its result, the calls it
  made, in order: the legacy call with its service, method and request, the creation of
  the administrative client with its user agent, and the requests of the administrative
  API with the client that sends them (whose user agent goes out with the request),
  their path parameters and, for a patch, the body and the update mask.
\<close>

datatype call =
    InternalCall string string pb_request
  | AdminNewService string
  | ServicesList APIService string
  | ServicesGet APIService string string
  | VersionsList APIService string string
  | VersionsGet APIService string string string
  | VersionsPatch APIService string string string Version string

section \<open>The package\<close>

subsection \<open>Identity and path selection\<close>

text \<open>\<^verbatim>\<open>strings.Index(s, sep)\<close> for a separator of one byte; \<open>None\<close> is \<^verbatim>\<open>-1\<close>.\<close>

definition Index :: "string \<Rightarrow> char \<Rightarrow> nat option" where
  "Index s sep = (if sep \<in> set s then Some (length (takeWhile (\<lambda>c. c \<noteq> sep) s)) else None)"

definition getProjectID :: "environ \<Rightarrow> string" where
  "getProjectID env =
     (let projectID = env ''GOOGLE_CLOUD_PROJECT'' in
      if projectID = [] then
        let appID = env ''GAE_APPLICATION'';
            appID = (if appID = [] then env ''APPLICATION_ID'' else appID);
            projectID = (case Index appID (CHR ''~'') of
                           Some i \<Rightarrow> drop (i + 1) appID
                         | None \<Rightarrow> projectID);
            projectID = (case Index projectID (CHR '':'') of
                           Some i \<Rightarrow> drop (i + 1) projectID
                         | None \<Rightarrow> projectID)
        in projectID
      else projectID)"

definition getModuleorDefault :: "environ \<Rightarrow> string" where
  "getModuleorDefault env =
     (let module' = env ''GAE_SERVICE'' in if module' = [] then ''default'' else module')"

text \<open>
  \<^verbatim>\<open>strings.ToLower\<close> on the bytes of ASCII. On other bytes Go maps whole runes; no rune
  outside ASCII has one of the letters of \<^verbatim>\<open>true\<close> as its lower case, so the comparison
  in \<open>useAdminAPI\<close> is the one of the source.
\<close>

definition ToLower_byte :: "char \<Rightarrow> char" where
  "ToLower_byte c =
     (case map_of (zip ''ABCDEFGHIJKLMNOPQRSTUVWXYZ'' ''abcdefghijklmnopqrstuvwxyz'') c of
        Some l \<Rightarrow> l
      | None \<Rightarrow> c)"

definition ToLower :: "string \<Rightarrow> string" where
  "ToLower s = map ToLower_byte s"

definition useAdminAPI :: "environ \<Rightarrow> bool" where
  "useAdminAPI env = (ToLower (env ''MODULES_USE_ADMIN_API'') = ''true'')"

definition getAdminService :: "world \<Rightarrow> string \<Rightarrow> call list \<times> (go_error + APIService)" where
  "getAdminService w methodName =
     (let userAgent = ''appengine-modules-api-go-client/'' @ methodName in
      ([AdminNewService userAgent],
       case NewService w userAgent of
         Some err \<Rightarrow> Inl (ErrorWrap ''module: could not create admin service: '' err)
       | None \<Rightarrow> Inr \<lparr>UserAgent = userAgent\<rparr>))"

subsection \<open>List and Versions\<close>

definition ListLegacy :: "world \<Rightarrow> call list \<times> (string list \<times> go_error option)" where
  "ListLegacy w =
     (let req = GetModulesRequest;
          (res_Module, err) = Call_GetModules w req
      in ([InternalCall ''modules'' ''GetModules'' req], (res_Module, err)))"

definition List :: "world \<Rightarrow> call list \<times> (string list \<times> go_error option)" where
  "List w =
     (if \<not> useAdminAPI (Getenv w) then ListLegacy w
      else
        let projectID = getProjectID (Getenv w);
            (made, svc_err) = getAdminService w ''get_modules''
        in case svc_err of
             Inl err \<Rightarrow> (made, ([], Some err))
           | Inr svc \<Rightarrow>
               (case Services_List w svc projectID of
                  Inl err \<Rightarrow> (made @ [ServicesList svc projectID], ([], Some err))
                | Inr resp_Services \<Rightarrow>
                    (made @ [ServicesList svc projectID], (map Service.Id resp_Services, None))))"

definition VersionsLegacy ::
  "world \<Rightarrow> string \<Rightarrow> call list \<times> (string list \<times> go_error option)" where
  "VersionsLegacy w module' =
     (let req = GetVersionsRequest (if module' \<noteq> [] then Some module' else None);
          (res_Version, err) = Call_GetVersions w req
      in ([InternalCall ''modules'' ''GetVersions'' req], (res_Version, err)))"

definition Versions :: "world \<Rightarrow> string \<Rightarrow> call list \<times> (string list \<times> go_error option)" where
  "Versions w module' =
     (if \<not> useAdminAPI (Getenv w) then VersionsLegacy w module'
      else
        let module' = (if module' = [] then getModuleorDefault (Getenv w) else module');
            projectID = getProjectID (Getenv w);
            (made, svc_err) = getAdminService w ''get_versions''
        in case svc_err of
             Inl err \<Rightarrow> (made, ([], Some err))
           | Inr svc \<Rightarrow>
               (case Versions_List w svc projectID module' of
                  Inl err \<Rightarrow> (made @ [VersionsList svc projectID module'], ([], Some err))
                | Inr resp_Versions \<Rightarrow>
                    (made @ [VersionsList svc projectID module'],
                     (map Version.Id resp_Versions, None))))"

subsection \<open>NumInstances and SetNumInstances\<close>

text \<open>
  \<open>NumInstancesLegacy\<close> ends with \<^verbatim>\<open>return int(*res.Instances), nil\<close>: the pointer is
  dereferenced as it is, and a nil pointer there is a panic.
\<close>

definition NumInstancesLegacy ::
  "world \<Rightarrow> string \<Rightarrow> string \<Rightarrow> call list \<times> (go_int \<times> go_error option) outcome" where
  "NumInstancesLegacy w module' version =
     (let req = GetNumInstancesRequest (if module' \<noteq> [] then Some module' else None)
                  (if version \<noteq> [] then Some version else None);
          (res_Instances, err) = Call_GetNumInstances w req
      in ([InternalCall ''modules'' ''GetNumInstances'' req],
          case err of
            Some e \<Rightarrow> Return (0, Some e)
          | None \<Rightarrow> (case res_Instances of None \<Rightarrow> Panic | Some n \<Rightarrow> Return (n, None))))"

definition NumInstances ::
  "world \<Rightarrow> string \<Rightarrow> string \<Rightarrow> call list \<times> (go_int \<times> go_error option) outcome" where
  "NumInstances w module' version =
     (if \<not> useAdminAPI (Getenv w) then NumInstancesLegacy w module' version
      else
        let module' = (if module' = [] then getModuleorDefault (Getenv w) else module');
            version = (if version = [] then VersionID w else version);
            projectID = getProjectID (Getenv w);
            (made, svc_err) = getAdminService w ''get_num_instances''
        in case svc_err of
             Inl err \<Rightarrow> (made, Return (0, Some err))
           | Inr svc \<Rightarrow>
               (case Versions_Get w svc projectID module' version of
                  Inl err \<Rightarrow>
                    (made @ [VersionsGet svc projectID module' version], Return (0, Some err))
                | Inr v \<Rightarrow>
                    (made @ [VersionsGet svc projectID module' version],
                     case ManualScaling v of
                       Some ms \<Rightarrow> Return (Instances ms, None)
                     | None \<Rightarrow>
                         Return (0, Some (ErrorString
                           (''module: version '' @ version @ '' is not using manual scaling''))))))"

definition SetNumInstancesLegacy ::
  "world \<Rightarrow> string \<Rightarrow> string \<Rightarrow> go_int \<Rightarrow> call list \<times> go_error option" where
  "SetNumInstancesLegacy w module' version instances =
     (let req = SetNumInstancesRequest (if module' \<noteq> [] then Some module' else None)
                  (if version \<noteq> [] then Some version else None) (Some instances)
      in ([InternalCall ''modules'' ''SetNumInstances'' req], Call_SetNumInstances w req))"

definition SetNumInstances ::
  "world \<Rightarrow> string \<Rightarrow> string \<Rightarrow> go_int \<Rightarrow> call list \<times> go_error option" where
  "SetNumInstances w module' version instances =
     (if \<not> useAdminAPI (Getenv w) then SetNumInstancesLegacy w module' version instances
      else
        let module' = (if module' = [] then getModuleorDefault (Getenv w) else module');
            version = (if version = [] then VersionID w else version);
            projectID = getProjectID (Getenv w);
            (made, svc_err) = getAdminService w ''set_num_instances''
        in case svc_err of
             Inl err1 \<Rightarrow> (made, Some err1)
           | Inr svc \<Rightarrow>
               (let update = Version_zero\<lparr>ManualScaling := Some \<lparr>Instances = instances\<rparr>\<rparr>;
                    err2 = Versions_Patch w svc projectID module' version update
                             ''manualScaling.instances''
                in (made @ [VersionsPatch svc projectID module' version update
                              ''manualScaling.instances''], err2)))"

subsection \<open>DefaultVersion\<close>

text \<open>
  The \<^verbatim>\<open>range\<close> loop of \<open>DefaultVersion\<close> over the entries still to visit, on its two
  variables \<^verbatim>\<open>retVersion\<close> and \<^verbatim>\<open>maxAlloc\<close>. The first branch is the \<^verbatim>\<open>break\<close>.
\<close>

fun rangeAllocations :: "(string \<times> float64) list \<Rightarrow> string \<times> float64 \<Rightarrow> string \<times> float64" where
  "rangeAllocations [] (retVersion, maxAlloc) = (retVersion, maxAlloc)"
| "rangeAllocations ((version, allocation) # rest) (retVersion, maxAlloc) =
     (if f64_eq allocation (Fin 1) then (version, maxAlloc)
      else if f64_gt allocation maxAlloc then rangeAllocations rest (version, allocation)
      else if f64_eq allocation maxAlloc then
        (if version < retVersion then rangeAllocations rest (version, maxAlloc)
         else rangeAllocations rest (retVersion, maxAlloc))
      else rangeAllocations rest (retVersion, maxAlloc))"

text \<open>
  The value of \<^verbatim>\<open>retVersion\<close> after the guarded loop: the variables start at the empty
  string and \<^verbatim>\<open>-1.0\<close>, and the loop runs only on a split that is there with a map that
  is not nil.
\<close>

definition selectDefault :: "Service \<Rightarrow> string" where
  "selectDefault service =
     (case Split service of
        None \<Rightarrow> []
      | Some split \<Rightarrow>
          (case Allocations split of
             None \<Rightarrow> []
           | Some allocations \<Rightarrow> fst (rangeAllocations allocations ([], Fin (- 1)))))"

definition DefaultVersionLegacy ::
  "world \<Rightarrow> string \<Rightarrow> call list \<times> (string \<times> go_error option)" where
  "DefaultVersionLegacy w module' =
     (let req = GetDefaultVersionRequest (if module' \<noteq> [] then Some module' else None);
          (res_Version, err) = Call_GetDefaultVersion w req
      in ([InternalCall ''modules'' ''GetDefaultVersion'' req],
          (case res_Version of None \<Rightarrow> [] | Some v \<Rightarrow> v, err)))"

definition DefaultVersion :: "world \<Rightarrow> string \<Rightarrow> call list \<times> (string \<times> go_error option)" where
  "DefaultVersion w module' =
     (if \<not> useAdminAPI (Getenv w) then DefaultVersionLegacy w module'
      else
        let module' = (if module' = [] then getModuleorDefault (Getenv w) else module');
            projectID = getProjectID (Getenv w);
            (made, svc_err) = getAdminService w ''get_default_version''
        in case svc_err of
             Inl err \<Rightarrow> (made, ([], Some err))
           | Inr svc \<Rightarrow>
               (made @ [ServicesGet svc projectID module'],
                case Services_Get w svc projectID module' of
                  Inl err \<Rightarrow>
                    (case err of
                       GoogleapiError code msg \<Rightarrow>
                         if code = 404 then
                           ([], Some (ErrorString
                              (''module: Module '' @ [CHR 0x27] @ module' @ [CHR 0x27] @ '' not found'')))
                         else ([], Some err)
                     | _ \<Rightarrow> ([], Some err))
                | Inr service \<Rightarrow>
                    (let retVersion = selectDefault service in
                     if retVersion = [] then
                       ([], Some (ErrorString
                          (''module: could not determine default version for module '' @
                           [CHR 0x27] @ module' @ [CHR 0x27])))
                     else (retVersion, None))))"

subsection \<open>Start and Stop\<close>

definition setServingStatus ::
  "world \<Rightarrow> string \<Rightarrow> string \<Rightarrow> string \<Rightarrow> call list \<times> go_error option" where
  "setServingStatus w module' version status =
     (let projectID = getProjectID (Getenv w);
          methodName = (if status = ''SERVING'' then ''start_version''
                        else if status = ''STOPPED'' then ''stop_version'' else []);
          (made, svc_err) = getAdminService w methodName
      in case svc_err of
           Inl err \<Rightarrow> (made, Some err)
         | Inr svc \<Rightarrow>
             (let module' = (if module' = [] then getModuleorDefault (Getenv w) else module');
                  version = (if version = [] then VersionID w else version);
                  update = Version_zero\<lparr>ServingStatus := status\<rparr>;
                  err = Versions_Patch w svc projectID module' version update ''servingStatus''
              in (made @ [VersionsPatch svc projectID module' version update ''servingStatus''],
                  err)))"

definition StartLegacy :: "world \<Rightarrow> string \<Rightarrow> string \<Rightarrow> call list \<times> go_error option" where
  "StartLegacy w module' version =
     (let req = StartModuleRequest (if module' \<noteq> [] then Some module' else None)
                  (if version \<noteq> [] then Some version else None)
      in ([InternalCall ''modules'' ''StartModule'' req], Call_StartModule w req))"

definition Start :: "world \<Rightarrow> string \<Rightarrow> string \<Rightarrow> call list \<times> go_error option" where
  "Start w module' version =
     (if \<not> useAdminAPI (Getenv w) then StartLegacy w module' version
      else setServingStatus w module' version ''SERVING'')"

definition StopLegacy :: "world \<Rightarrow> string \<Rightarrow> string \<Rightarrow> call list \<times> go_error option" where
  "StopLegacy w module' version =
     (let req = StopModuleRequest (if module' \<noteq> [] then Some module' else None)
                  (if version \<noteq> [] then Some version else None)
      in ([InternalCall ''modules'' ''StopModule'' req], Call_StopModule w req))"

definition Stop :: "world \<Rightarrow> string \<Rightarrow> string \<Rightarrow> call list \<times> go_error option" where
  "Stop w module' version =
     (if \<not> useAdminAPI (Getenv w) then StopLegacy w module' version
      else setServingStatus w module' version ''STOPPED'')"

section \<open>Notions used in the statements\<close>

text \<open>
  \<open>beats x y\<close>: the entry \<open>y\<close> does not displace the entry \<open>x\<close> as the running best of
  the loop: its allocation is not greater, and on equal allocations its version id is
  not smaller.
\<close>

definition beats :: "string \<times> float64 \<Rightarrow> string \<times> float64 \<Rightarrow> bool" where
  "beats x y = (\<not> f64_gt (snd y) (snd x) \<and> (snd y = snd x \<longrightarrow> fst x \<le> fst y))"

text \<open>
  The path a call took, read off the calls it made: \<open>Legacy\<close> when it made calls and all
  went through \<^verbatim>\<open>internal.Call\<close>, \<open>Modern\<close> when it made calls and none did.
\<close>

datatype path = Legacy | Modern

fun is_legacy_call :: "call \<Rightarrow> bool" where
  "is_legacy_call (InternalCall service method req) = True"
| "is_legacy_call _ = False"

definition path_of :: "call list \<Rightarrow> path option" where
  "path_of made =
     (if made \<noteq> [] \<and> list_all is_legacy_call made then Some Legacy
      else if made \<noteq> [] \<and> list_all (\<lambda>c. \<not> is_legacy_call c) made then Some Modern
      else None)"

text \<open>The seven public operations with their arguments, and the calls each one makes.\<close>

datatype operation =
    OpList
  | OpNumInstances string string
  | OpSetNumInstances string string go_int
  | OpVersions string
  | OpDefaultVersion string
  | OpStart string string
  | OpStop string string

fun calls :: "world \<Rightarrow> operation \<Rightarrow> call list" where
  "calls w OpList = fst (List w)"
| "calls w (OpNumInstances module' version) = fst (NumInstances w module' version)"
| "calls w (OpSetNumInstances module' version instances) =
     fst (SetNumInstances w module' version instances)"
| "calls w (OpVersions module') = fst (Versions w module')"
| "calls w (OpDefaultVersion module') = fst (DefaultVersion w module')"
| "calls w (OpStart module' version) = fst (Start w module' version)"
| "calls w (OpStop module' version) = fst (Stop w module' version)"

text \<open>The strings that are equal to \<^verbatim>\<open>true\<close> when the case of letters is ignored.\<close>

definition true_spellings :: "string list" where
  "true_spellings = [[a, b, c, d]. a \<leftarrow> ''tT'', b \<leftarrow> ''rR'', c \<leftarrow> ''uU'', d \<leftarrow> ''eE'']"

text \<open>
  The user agents that go out with the requests of the administrative API among the
  calls made: each request is sent by a client, and carries the user agent the client
  was created with.
\<close>

fun request_token :: "call \<Rightarrow> string option" where
  "request_token (InternalCall service method req) = None"
| "request_token (AdminNewService userAgent) = None"
| "request_token (ServicesList svc projectID) = Some (UserAgent svc)"
| "request_token (ServicesGet svc projectID module') = Some (UserAgent svc)"
| "request_token (VersionsList svc projectID module') = Some (UserAgent svc)"
| "request_token (VersionsGet svc projectID module' version) = Some (UserAgent svc)"
| "request_token (VersionsPatch svc projectID module' version update updateMask) = Some (UserAgent svc)"

definition request_tokens :: "call list \<Rightarrow> string list" where
  "request_tokens made = List.map_filter request_token made"

text \<open>The bodies of the patches among the calls made.\<close>

fun patch_body :: "call \<Rightarrow> Version option" where
  "patch_body (VersionsPatch svc projectID module' version update updateMask) = Some update"
| "patch_body _ = None"

definition sent_updates :: "call list \<Rightarrow> Version list" where
  "sent_updates made = List.map_filter patch_body made"

text \<open>The name of the public function an operation calls.\<close>

fun operation_name :: "operation \<Rightarrow> string" where
  "operation_name OpList = ''List''"
| "operation_name (OpNumInstances module' version) = ''NumInstances''"
| "operation_name (OpSetNumInstances module' version instances) = ''SetNumInstances''"
| "operation_name (OpVersions module') = ''Versions''"
| "operation_name (OpDefaultVersion module') = ''DefaultVersion''"
| "operation_name (OpStart module' version) = ''Start''"
| "operation_name (OpStop module' version) = ''Stop''"

text \<open>
  The field paths an update mask names: the mask of the administrative API is a list of
  paths separated by commas.
\<close>

fun mask_paths :: "string \<Rightarrow> string list" where
  "mask_paths [] = [[]]"
| "mask_paths (c # cs) =
     (if c = CHR '','' then [] # mask_paths cs
      else (case mask_paths cs of p # ps \<Rightarrow> (c # p) # ps | [] \<Rightarrow> [[c]]))"

text \<open>
  The worlds of the package's tests: the environment of the tests of the modern path
  (\<^verbatim>\<open>MODULES_USE_ADMIN_API=true\<close>, \<^verbatim>\<open>GOOGLE_CLOUD_PROJECT=test-project\<close>) and the empty
  environment of the tests of the legacy path, with collaborators that answer every
  call with an empty success.
\<close>

definition test_env :: environ where
  "test_env k =
     (if k = ''MODULES_USE_ADMIN_API'' then ''true''
      else if k = ''GOOGLE_CLOUD_PROJECT'' then ''test-project'' else [])"

definition legacy_world :: world where
  "legacy_world =
     \<lparr>Getenv = (\<lambda>k. []), VersionID = ''test-version'',
      Call_GetModules = (\<lambda>req. ([], None)),
      Call_GetNumInstances = (\<lambda>req. (Some 3, None)),
      Call_SetNumInstances = (\<lambda>req. None),
      Call_GetVersions = (\<lambda>req. ([], None)),
      Call_GetDefaultVersion = (\<lambda>req. (None, None)),
      Call_StartModule = (\<lambda>req. None),
      Call_StopModule = (\<lambda>req. None),
      NewService = (\<lambda>userAgent. None),
      Services_List = (\<lambda>svc projectID. Inr []),
      Services_Get = (\<lambda>svc projectID module'. Inr \<lparr>Service.Id = module', Split = None\<rparr>),
      Versions_List = (\<lambda>svc projectID module'. Inr []),
      Versions_Get = (\<lambda>svc projectID module' version. Inr (Version_zero\<lparr>Version.Id := version\<rparr>)),
      Versions_Patch = (\<lambda>svc projectID module' version update updateMask. None)\<rparr>"

definition test_world :: world where
  "test_world = legacy_world\<lparr>Getenv := test_env\<rparr>"

text \<open>
  The resolution of the project id as the specification words it: the explicit variable
  when it is set; otherwise the application id with everything up to and including a
  tilde separator stripped, and then any domain prefix \<^verbatim>\<open>domain:rest\<close> stripped down to
  \<^verbatim>\<open>rest\<close>. Stripping a prefix that is not there leaves the string as it is.
\<close>

definition strip_through :: "char \<Rightarrow> string \<Rightarrow> string" where
  "strip_through sep s = (if sep \<in> set s then tl (dropWhile (\<lambda>c. c \<noteq> sep) s) else s)"

definition projectID_as_specified :: "environ \<Rightarrow> string" where
  "projectID_as_specified env =
     (if env ''GOOGLE_CLOUD_PROJECT'' \<noteq> [] then env ''GOOGLE_CLOUD_PROJECT''
      else strip_through (CHR '':'') (strip_through (CHR ''~'')
             (if env ''GAE_APPLICATION'' \<noteq> [] then env ''GAE_APPLICATION''
              else env ''APPLICATION_ID'')))"

section \<open>Comparisons of \<^verbatim>\<open>float64\<close>\<close>

lemma f64_gt_not_NaN: "f64_gt a b \<Longrightarrow> a \<noteq> NaN \<and> b \<noteq> NaN"
  by (cases a; cases b) simp_all

lemma f64_gt_irrefl: "\<not> f64_gt a a"
  by (cases a) simp_all

lemma f64_gt_asym: "f64_gt a b \<Longrightarrow> \<not> f64_gt b a"
  by (cases a; cases b) simp_all

lemma f64_total: "a \<noteq> NaN \<Longrightarrow> b \<noteq> NaN \<Longrightarrow> f64_gt a b \<or> a = b \<or> f64_gt b a"
  by (cases a; cases b) auto

lemma f64_not_gt_trans:
  "b \<noteq> NaN \<Longrightarrow> c \<noteq> NaN \<Longrightarrow> \<not> f64_gt a b \<Longrightarrow> \<not> f64_gt b c \<Longrightarrow> \<not> f64_gt a c"
  by (cases a; cases b; cases c) simp_all

section \<open>The scanning loop of DefaultVersion\<close>

lemma rangeAllocations_break:
  "find (\<lambda>(v, a). f64_eq a (Fin 1)) es = Some (v, a) \<Longrightarrow> fst (rangeAllocations es st) = v"
proof (induction es arbitrary: st)
  case Nil
  then show ?case by simp
next
  case (Cons e es)
  obtain v' a' where e: "e = (v', a')" by (cases e)
  obtain r m where st: "st = (r, m)" by (cases st)
  show ?case
  proof (cases "f64_eq a' (Fin 1)")
    case True
    with Cons.prems e st show ?thesis by simp
  next
    case False
    with Cons.prems e have "find (\<lambda>(v, a). f64_eq a (Fin 1)) es = Some (v, a)" by simp
    then have "\<And>st'. fst (rangeAllocations es st') = v" by (rule Cons.IH)
    with False e st show ?thesis by simp
  qed
qed

lemma beats_refl: "beats x x"
  by (simp add: beats_def f64_gt_irrefl)

lemma beats_trans:
  assumes "beats x y" "beats y z" "snd x \<noteq> NaN" "snd y \<noteq> NaN"
  shows "beats x z"
proof -
  from assms have ngt: "\<not> f64_gt (snd z) (snd x)"
    unfolding beats_def using f64_not_gt_trans by blast
  have "fst x \<le> fst z" if eq: "snd z = snd x"
  proof -
    from assms(1) have 1: "\<not> f64_gt (snd y) (snd x)" by (simp add: beats_def)
    from assms(2) eq have 2: "\<not> f64_gt (snd x) (snd y)" by (simp add: beats_def)
    from 1 2 assms(3,4) have "snd y = snd x" using f64_total by blast
    with assms(1,2) eq show ?thesis by (auto simp: beats_def)
  qed
  with ngt show ?thesis by (simp add: beats_def)
qed

lemma rangeAllocations_best:
  assumes "\<forall>(v, a) \<in> set es. \<not> f64_eq a (Fin 1)" "m \<noteq> NaN"
  shows "snd (rangeAllocations es (r, m)) \<noteq> NaN
       \<and> rangeAllocations es (r, m) \<in> insert (r, m) (set es)
       \<and> beats (rangeAllocations es (r, m)) (r, m)
       \<and> (\<forall>y \<in> set es. beats (rangeAllocations es (r, m)) y)"
  using assms
proof (induction es arbitrary: r m)
  case Nil
  then show ?case by (simp add: beats_refl)
next
  case (Cons e es)
  obtain v a where e: "e = (v, a)" by (cases e)
  from Cons.prems e have no1: "\<not> f64_eq a (Fin 1)" and rest: "\<forall>(v, a) \<in> set es. \<not> f64_eq a (Fin 1)"
    by auto
  define st where "st = (if f64_gt a m then (v, a) else if f64_eq a m \<and> v < r then (v, m) else (r, m))"
  have step: "rangeAllocations (e # es) (r, m) = rangeAllocations es st"
    using no1 e by (simp add: st_def)
  have nn: "snd st \<noteq> NaN"
    using Cons.prems(2) f64_gt_not_NaN[of a m] by (simp add: st_def)
  have mem: "st \<in> {(r, m), e}"
    using e by (auto simp: st_def f64_eq_def)
  have b1: "beats st (r, m)"
    using f64_gt_asym[of a m] by (auto simp: st_def beats_def f64_gt_irrefl f64_eq_def)
  have b2: "beats st e"
    using e Cons.prems(2) by (auto simp: st_def beats_def f64_gt_irrefl f64_eq_def)
  obtain r' m' where st': "st = (r', m')" by (cases st)
  from nn st' have "m' \<noteq> NaN" by simp
  from Cons.IH[OF rest this, of r'] st'
  have ih: "snd (rangeAllocations es st) \<noteq> NaN" "rangeAllocations es st \<in> insert st (set es)"
    "beats (rangeAllocations es st) st" "\<forall>y \<in> set es. beats (rangeAllocations es st) y"
    by simp_all
  have c1: "beats (rangeAllocations es st) (r, m)"
    using beats_trans[OF ih(3) b1 ih(1) nn] .
  have c2: "beats (rangeAllocations es st) e"
    using beats_trans[OF ih(3) b2 ih(1) nn] .
  from ih(2) mem have c3: "rangeAllocations es st \<in> insert (r, m) (set (e # es))" by auto
  from ih(1) ih(4) c1 c2 c3 show ?case unfolding step by simp
qed

lemma selectDefault_allocations:
  "Split service = Some split \<Longrightarrow> Allocations split = Some allocations \<Longrightarrow>
   selectDefault service = fst (rangeAllocations allocations ([], Fin (- 1)))"
  by (simp add: selectDefault_def)

text \<open>
  C9. Two enumerations of one allocation map, in which at most one version has the
  allocation \<^verbatim>\<open>1.0\<close>, make \<open>DefaultVersion\<close> select the same version: the result of the
  loop does not depend on the order in which \<^verbatim>\<open>range\<close> visits the map.
\<close>

theorem selectDefault_order_independent:
  assumes "Split service = Some split" and "Allocations split = Some es"
    and "Split service' = Some split'" and "Allocations split' = Some es'"
    and same: "set es = set es'"
    and one: "\<forall>(v, a) \<in> set es. \<forall>(v', a') \<in> set es.
               f64_eq a (Fin 1) \<and> f64_eq a' (Fin 1) \<longrightarrow> v = v'"
  shows "selectDefault service = selectDefault service'"
proof -
  let ?P = "\<lambda>(v, a). f64_eq a (Fin 1)"
  let ?R = "rangeAllocations es ([], Fin (- 1))"
  let ?R' = "rangeAllocations es' ([], Fin (- 1))"
  have "fst ?R = fst ?R'"
  proof (cases "find ?P es")
    case (Some x)
    obtain v a where x: "x = (v, a)" by (cases x)
    from Some x have in1: "(v, a) \<in> set es" "f64_eq a (Fin 1)"
      by (auto simp: find_Some_iff in_set_conv_nth)
    with same have "find ?P es' \<noteq> None" by (auto simp: find_None_iff)
    then obtain v' a' where s': "find ?P es' = Some (v', a')" by auto
    then have "(v', a') \<in> set es'" "f64_eq a' (Fin 1)"
      by (auto simp: find_Some_iff in_set_conv_nth)
    with same in1 one have "v = v'" by blast
    moreover have "fst ?R = v" using Some x by (simp add: rangeAllocations_break)
    moreover have "fst ?R' = v'" using s' by (simp add: rangeAllocations_break)
    ultimately show ?thesis by simp
  next
    case None
    then have no1: "\<forall>(v, a) \<in> set es. \<not> f64_eq a (Fin 1)" by (auto simp: find_None_iff)
    with same have no1': "\<forall>(v, a) \<in> set es'. \<not> f64_eq a (Fin 1)" by simp
    have b: "snd ?R \<noteq> NaN" "?R \<in> insert ([], Fin (- 1)) (set es)"
      "beats ?R ([], Fin (- 1))" "\<forall>y \<in> set es. beats ?R y"
      using rangeAllocations_best[OF no1, of "Fin (- 1)" "[]"] by simp_all
    have b': "snd ?R' \<noteq> NaN" "?R' \<in> insert ([], Fin (- 1)) (set es)"
      "beats ?R' ([], Fin (- 1))" "\<forall>y \<in> set es. beats ?R' y"
      using rangeAllocations_best[OF no1', of "Fin (- 1)" "[]"] same by simp_all
    from b(2) b'(3,4) have 1: "beats ?R' ?R" by auto
    from b'(2) b(3,4) have 2: "beats ?R ?R'" by auto
    from 1 2 b(1) b'(1) have "snd ?R = snd ?R'"
      unfolding beats_def using f64_total by blast
    with 1 2 show ?thesis by (auto simp: beats_def)
  qed
  with assms(1-4) show ?thesis by (simp add: selectDefault_allocations)
qed

theorem selectDefault_order_independent_witness:
  "set [(''version-b'', Fin (1 / 2)), (''version-a'', Fin (1 / 2))]
     = set [(''version-a'', Fin (1 / 2)), (''version-b'', Fin (1 / 2))]
   \<and> selectDefault \<lparr>Service.Id = ''default'', Split = Some
        \<lparr>Allocations = Some [(''version-b'', Fin (1 / 2)), (''version-a'', Fin (1 / 2))]\<rparr>\<rparr>
     = selectDefault \<lparr>Service.Id = ''default'', Split = Some
        \<lparr>Allocations = Some [(''version-a'', Fin (1 / 2)), (''version-b'', Fin (1 / 2))]\<rparr>\<rparr>"
proof -
  let ?es = "[(''version-b'', Fin (1 / 2)), (''version-a'', Fin (1 / 2))]"
  let ?es' = "[(''version-a'', Fin (1 / 2)), (''version-b'', Fin (1 / 2))]"
  have same: "set ?es = set ?es'" by auto
  have one: "\<forall>(v, a) \<in> set ?es. \<forall>(v', a') \<in> set ?es.
               f64_eq a (Fin 1) \<and> f64_eq a' (Fin 1) \<longrightarrow> v = v'"
    by (simp add: f64_eq_def)
  have "selectDefault \<lparr>Service.Id = ''default'', Split = Some \<lparr>Allocations = Some ?es\<rparr>\<rparr>
      = selectDefault \<lparr>Service.Id = ''default'', Split = Some \<lparr>Allocations = Some ?es'\<rparr>\<rparr>"
    using selectDefault_order_independent[of
        "\<lparr>Service.Id = ''default'', Split = Some \<lparr>Allocations = Some ?es\<rparr>\<rparr>"
        "\<lparr>Allocations = Some ?es\<rparr>" ?es
        "\<lparr>Service.Id = ''default'', Split = Some \<lparr>Allocations = Some ?es'\<rparr>\<rparr>"
        "\<lparr>Allocations = Some ?es'\<rparr>" ?es', OF _ _ _ _ same one]
    by simp
  with same show ?thesis by blast
qed

section \<open>Creating the client\<close>

lemma getAdminService_ok:
  "NewService w (''appengine-modules-api-go-client/'' @ methodName) = None \<Longrightarrow>
   getAdminService w methodName =
     ([AdminNewService (''appengine-modules-api-go-client/'' @ methodName)],
      Inr \<lparr>UserAgent = ''appengine-modules-api-go-client/'' @ methodName\<rparr>)"
  by (simp add: getAdminService_def Let_def)

lemma getAdminService_cases:
  obtains err where "getAdminService w methodName =
      ([AdminNewService (''appengine-modules-api-go-client/'' @ methodName)], Inl err)"
  | "getAdminService w methodName =
      ([AdminNewService (''appengine-modules-api-go-client/'' @ methodName)],
       Inr \<lparr>UserAgent = ''appengine-modules-api-go-client/'' @ methodName\<rparr>)"
  by (cases "NewService w (''appengine-modules-api-go-client/'' @ methodName)")
     (auto simp: getAdminService_def Let_def)

section \<open>Path selection\<close>

lemma ToLower_byte_if: "ToLower_byte c =
  (if c = CHR ''A'' then CHR ''a'' else if c = CHR ''B'' then CHR ''b'' else if c = CHR ''C'' then CHR ''c''
   else if c = CHR ''D'' then CHR ''d'' else if c = CHR ''E'' then CHR ''e'' else if c = CHR ''F'' then CHR ''f''
   else if c = CHR ''G'' then CHR ''g'' else if c = CHR ''H'' then CHR ''h'' else if c = CHR ''I'' then CHR ''i''
   else if c = CHR ''J'' then CHR ''j'' else if c = CHR ''K'' then CHR ''k'' else if c = CHR ''L'' then CHR ''l''
   else if c = CHR ''M'' then CHR ''m'' else if c = CHR ''N'' then CHR ''n'' else if c = CHR ''O'' then CHR ''o''
   else if c = CHR ''P'' then CHR ''p'' else if c = CHR ''Q'' then CHR ''q'' else if c = CHR ''R'' then CHR ''r''
   else if c = CHR ''S'' then CHR ''s'' else if c = CHR ''T'' then CHR ''t'' else if c = CHR ''U'' then CHR ''u''
   else if c = CHR ''V'' then CHR ''v'' else if c = CHR ''W'' then CHR ''w'' else if c = CHR ''X'' then CHR ''x''
   else if c = CHR ''Y'' then CHR ''y'' else if c = CHR ''Z'' then CHR ''z'' else c)"
  by (simp add: ToLower_byte_def)

lemma ToLower_byte_true:
  "ToLower_byte c = CHR ''t'' \<longleftrightarrow> c = CHR ''t'' \<or> c = CHR ''T''"
  "ToLower_byte c = CHR ''r'' \<longleftrightarrow> c = CHR ''r'' \<or> c = CHR ''R''"
  "ToLower_byte c = CHR ''u'' \<longleftrightarrow> c = CHR ''u'' \<or> c = CHR ''U''"
  "ToLower_byte c = CHR ''e'' \<longleftrightarrow> c = CHR ''e'' \<or> c = CHR ''E''"
  unfolding ToLower_byte_if by simp_all

lemma true_spellings_eq:
  "true_spellings =
     [''true'', ''truE'', ''trUe'', ''trUE'', ''tRue'', ''tRuE'', ''tRUe'', ''tRUE'',
      ''True'', ''TruE'', ''TrUe'', ''TrUE'', ''TRue'', ''TRuE'', ''TRUe'', ''TRUE'']"
  by (simp add: true_spellings_def)

lemma ToLower_true: "ToLower s = ''true'' \<longleftrightarrow> s \<in> set true_spellings"
proof
  assume a: "ToLower s = ''true''"
  then have "length (ToLower s) = 4" by simp
  then have "length s = 4" by (simp add: ToLower_def)
  then obtain a b c d where s: "s = [a, b, c, d]"
    by (auto simp: length_Suc_conv numeral_eq_Suc)
  from a s have "(a = CHR ''t'' \<or> a = CHR ''T'') \<and> (b = CHR ''r'' \<or> b = CHR ''R'')
      \<and> (c = CHR ''u'' \<or> c = CHR ''U'') \<and> (d = CHR ''e'' \<or> d = CHR ''E'')"
    by (simp add: ToLower_def ToLower_byte_true)
  then show "s \<in> set true_spellings"
    unfolding s true_spellings_eq by (elim conjE disjE) simp_all
next
  assume "s \<in> set true_spellings"
  then have "s \<in> {''true'', ''truE'', ''trUe'', ''trUE'', ''tRue'', ''tRuE'', ''tRUe'', ''tRUE'',
      ''True'', ''TruE'', ''TrUe'', ''TrUE'', ''TRue'', ''TRuE'', ''TRUe'', ''TRUE''}"
    by (simp add: true_spellings_eq)
  then show "ToLower s = ''true''"
    by (elim insertE emptyE) (simp_all add: ToLower_def ToLower_byte_def)
qed

lemma useAdminAPI_spellings:
  "useAdminAPI env \<longleftrightarrow> env ''MODULES_USE_ADMIN_API'' \<in> set true_spellings"
  by (simp add: useAdminAPI_def ToLower_true)

lemma test_env_modern: "useAdminAPI test_env"
  by (simp add: useAdminAPI_def test_env_def ToLower_def ToLower_byte_def)

lemma test_world_simps:
  "Getenv test_world = test_env"
  "NewService test_world = (\<lambda>userAgent. None)"
  "VersionID test_world = ''test-version''"
  by (simp_all add: test_world_def legacy_world_def)

lemma legacy_world_simps:
  "Getenv legacy_world = (\<lambda>k. [])"
  "Call_GetNumInstances legacy_world = (\<lambda>req. (Some 3, None))"
  by (simp_all add: legacy_world_def)

lemma empty_env_legacy: "\<not> useAdminAPI (\<lambda>k. [])"
  by (simp add: useAdminAPI_def ToLower_def)

lemma path_of_legacy [simp]: "path_of [InternalCall service method req] = Some Legacy"
  by (simp add: path_of_def)

lemma path_of_modern [simp]:
  "path_of [AdminNewService ua] = Some Modern"
  "path_of [AdminNewService ua, ServicesList svc p] = Some Modern"
  "path_of [AdminNewService ua, ServicesGet svc p m] = Some Modern"
  "path_of [AdminNewService ua, VersionsList svc p m] = Some Modern"
  "path_of [AdminNewService ua, VersionsGet svc p m v] = Some Modern"
  "path_of [AdminNewService ua, VersionsPatch svc p m v u k] = Some Modern"
  by (simp_all add: path_of_def)

lemma path_List:
  "path_of (fst (List w)) = Some (if useAdminAPI (Getenv w) then Modern else Legacy)"
  by (rule getAdminService_cases[of w "''get_modules''"])
     (simp_all add: List_def ListLegacy_def Let_def split: prod.splits sum.splits)

lemma path_Versions:
  "path_of (fst (Versions w m)) = Some (if useAdminAPI (Getenv w) then Modern else Legacy)"
  by (rule getAdminService_cases[of w "''get_versions''"])
     (simp_all add: Versions_def VersionsLegacy_def Let_def split: prod.splits sum.splits)

lemma path_NumInstances:
  "path_of (fst (NumInstances w m v)) = Some (if useAdminAPI (Getenv w) then Modern else Legacy)"
  by (rule getAdminService_cases[of w "''get_num_instances''"])
     (simp_all add: NumInstances_def NumInstancesLegacy_def Let_def split: prod.splits sum.splits)

lemma path_SetNumInstances:
  "path_of (fst (SetNumInstances w m v n)) = Some (if useAdminAPI (Getenv w) then Modern else Legacy)"
  by (rule getAdminService_cases[of w "''set_num_instances''"])
     (simp_all add: SetNumInstances_def SetNumInstancesLegacy_def Let_def split: prod.splits sum.splits)

lemma path_DefaultVersion:
  "path_of (fst (DefaultVersion w m)) = Some (if useAdminAPI (Getenv w) then Modern else Legacy)"
  by (rule getAdminService_cases[of w "''get_default_version''"])
     (simp_all add: DefaultVersion_def DefaultVersionLegacy_def Let_def split: prod.splits sum.splits)

lemma path_setServingStatus:
  "path_of (fst (setServingStatus w m v status)) = Some Modern"
  by (rule getAdminService_cases[of w "if status = ''SERVING'' then ''start_version''
                        else if status = ''STOPPED'' then ''stop_version'' else []"])
     (simp_all add: setServingStatus_def Let_def split: prod.splits sum.splits)

lemma path_Start:
  "path_of (fst (Start w m v)) = Some (if useAdminAPI (Getenv w) then Modern else Legacy)"
  by (simp add: Start_def StartLegacy_def Let_def path_setServingStatus)

lemma path_Stop:
  "path_of (fst (Stop w m v)) = Some (if useAdminAPI (Getenv w) then Modern else Legacy)"
  by (simp add: Stop_def StopLegacy_def Let_def path_setServingStatus)

lemma path_calls:
  "path_of (calls w op) = Some (if useAdminAPI (Getenv w) then Modern else Legacy)"
  by (cases op)
     (simp_all only: calls.simps path_List path_Versions path_NumInstances path_SetNumInstances
        path_DefaultVersion path_Start path_Stop)

text \<open>
  C7. Every call of each of the seven operations takes the modern path exactly when the
  value of \<^verbatim>\<open>MODULES_USE_ADMIN_API\<close> at that call is one of the sixteen spellings of
  \<^verbatim>\<open>true\<close>, and the legacy path otherwise. The package keeps no state between calls,
  so in any run of calls, each under the environment of its moment, every call takes
  the path its own environment selects.
\<close>

theorem path_selected_at_each_call:
  "path_of (calls w op) =
     Some (if Getenv w ''MODULES_USE_ADMIN_API'' \<in> set true_spellings then Modern else Legacy)
   \<and> map (\<lambda>(w, op). path_of (calls w op)) run =
       map (\<lambda>(w, op). Some (if Getenv w ''MODULES_USE_ADMIN_API'' \<in> set true_spellings
                               then Modern else Legacy)) run"
  by (simp add: path_calls useAdminAPI_spellings split_def)

theorem path_selected_at_each_call_witness:
  "path_of (calls test_world OpList) = Some Modern
   \<and> path_of (calls legacy_world OpList) = Some Legacy
   \<and> map (\<lambda>(w, op). path_of (calls w op))
        [(test_world, OpStart ''my-module'' ''v1''), (legacy_world, OpStart ''my-module'' ''v1''),
         (test_world, OpStart ''my-module'' ''v1'')]
     = [Some Modern, Some Legacy, Some Modern]"
  using path_selected_at_each_call[of test_world OpList "[(test_world, OpStart ''my-module'' ''v1''),
      (legacy_world, OpStart ''my-module'' ''v1''), (test_world, OpStart ''my-module'' ''v1'')]"]
    path_selected_at_each_call[of legacy_world OpList "[]"]
  by (simp add: test_world_simps legacy_world_simps test_env_def true_spellings_eq)

section \<open>Project id\<close>

lemma Index_found:
  "sep \<notin> set before \<Longrightarrow> Index (before @ sep # rest) sep = Some (length before)"
  by (induction before) (auto simp: Index_def)

lemma Index_absent: "sep \<notin> set s \<Longrightarrow> Index s sep = None"
  by (simp add: Index_def)

lemma getProjectID_explicit:
  "env ''GOOGLE_CLOUD_PROJECT'' \<noteq> [] \<Longrightarrow> getProjectID env = env ''GOOGLE_CLOUD_PROJECT''"
  by (simp add: getProjectID_def)

lemma getProjectID_derived:
  assumes "env ''GOOGLE_CLOUD_PROJECT'' = []"
    and "(if env ''GAE_APPLICATION'' \<noteq> [] then env ''GAE_APPLICATION'' else env ''APPLICATION_ID'')
         = region @ CHR ''~'' # rest"
    and "CHR ''~'' \<notin> set region"
  shows "getProjectID env =
           (case Index rest (CHR '':'') of Some i \<Rightarrow> drop (i + 1) rest | None \<Rightarrow> rest)"
proof (cases "env ''GAE_APPLICATION'' = []")
  case True
  with assms(2) have "env ''APPLICATION_ID'' = region @ CHR ''~'' # rest" by simp
  with assms(1,3) True show ?thesis
    by (simp add: getProjectID_def Let_def Index_found cong: option.case_cong)
next
  case False
  with assms(2) have "env ''GAE_APPLICATION'' = region @ CHR ''~'' # rest" by simp
  with assms(1,3) show ?thesis
    by (simp add: getProjectID_def Let_def Index_found cong: option.case_cong)
qed

lemma getProjectID_no_tilde:
  assumes "env ''GOOGLE_CLOUD_PROJECT'' = []"
    and "CHR ''~'' \<notin> set (if env ''GAE_APPLICATION'' \<noteq> [] then env ''GAE_APPLICATION''
                          else env ''APPLICATION_ID'')"
  shows "getProjectID env = []"
  using assms by (cases "env ''GAE_APPLICATION'' = []") (simp_all add: getProjectID_def Let_def Index_def)

lemma strip_through_found:
  "sep \<notin> set before \<Longrightarrow> strip_through sep (before @ sep # rest) = rest"
  by (induction before) (auto simp: strip_through_def)

lemma Index_strip_through:
  "(case Index s sep of Some i \<Rightarrow> drop (i + 1) s | None \<Rightarrow> s) = strip_through sep s"
proof (cases "sep \<in> set s")
  case True
  then obtain before rest where s: "s = before @ sep # rest" "sep \<notin> set before"
    by (auto dest: split_list_first)
  then show ?thesis by (simp add: Index_found strip_through_found)
next
  case False
  then show ?thesis by (simp add: Index_absent strip_through_def)
qed

lemma getProjectID_as_specified:
  assumes "env ''GOOGLE_CLOUD_PROJECT'' \<noteq> []
         \<or> CHR ''~'' \<in> set (if env ''GAE_APPLICATION'' \<noteq> [] then env ''GAE_APPLICATION''
                               else env ''APPLICATION_ID'')"
  shows "getProjectID env = projectID_as_specified env"
proof (cases "env ''GOOGLE_CLOUD_PROJECT'' = []")
  case False
  then show ?thesis by (simp add: getProjectID_explicit projectID_as_specified_def)
next
  case True
  let ?appID = "if env ''GAE_APPLICATION'' \<noteq> [] then env ''GAE_APPLICATION''
                else env ''APPLICATION_ID''"
  from assms True have "CHR ''~'' \<in> set ?appID" by simp
  then obtain region rest where a: "?appID = region @ CHR ''~'' # rest" "CHR ''~'' \<notin> set region"
    by (auto dest: split_list_first)
  from getProjectID_derived[OF True a]
  have "getProjectID env = strip_through (CHR '':'') rest"
    by (simp add: Index_strip_through)
  moreover have "strip_through (CHR ''~'') ?appID = rest"
    unfolding a(1) using a(2) by (rule strip_through_found)
  ultimately show ?thesis using True by (simp add: projectID_as_specified_def)
qed

text \<open>
  C8. \<open>getProjectID\<close> returns \<^verbatim>\<open>GOOGLE_CLOUD_PROJECT\<close> when it is set, and for an
  application id that contains a tilde it returns what the specification says
  (\<open>getProjectID_as_specified\<close>). For an application id without a tilde it does not:
  \<^verbatim>\<open>projectID\<close> is assigned only when the tilde is found, so it stays empty, and the
  colon step finds nothing to strip. \<^verbatim>\<open>APPLICATION_ID=myapp\<close> gives the empty string and
  not \<^verbatim>\<open>myapp\<close>, and \<^verbatim>\<open>GAE_APPLICATION=google.com:project-id\<close>, the example of the
  comment in the source, gives the empty string and not \<^verbatim>\<open>project-id\<close>.
\<close>

theorem getProjectID_without_tilde:
  "getProjectID (\<lambda>k. if k = ''APPLICATION_ID'' then ''myapp'' else []) = []
   \<and> projectID_as_specified (\<lambda>k. if k = ''APPLICATION_ID'' then ''myapp'' else []) = ''myapp''
   \<and> getProjectID (\<lambda>k. if k = ''GAE_APPLICATION'' then ''google.com:project-id'' else []) = []
   \<and> projectID_as_specified (\<lambda>k. if k = ''GAE_APPLICATION'' then ''google.com:project-id'' else [])
       = ''project-id''"
  by (simp add: getProjectID_def Index_def projectID_as_specified_def strip_through_def)

section \<open>The results of the modern path\<close>

lemma DefaultVersion_modern:
  assumes "useAdminAPI (Getenv w)"
    and "NewService w ''appengine-modules-api-go-client/get_default_version'' = None"
  shows "snd (DefaultVersion w m) =
     (case Services_Get w \<lparr>UserAgent = ''appengine-modules-api-go-client/get_default_version''\<rparr>
             (getProjectID (Getenv w)) (if m = [] then getModuleorDefault (Getenv w) else m) of
        Inl err \<Rightarrow>
          (case err of
             GoogleapiError code msg \<Rightarrow>
               if code = 404 then
                 ([], Some (ErrorString (''module: Module '' @ [CHR 0x27] @
                    (if m = [] then getModuleorDefault (Getenv w) else m) @ [CHR 0x27] @ '' not found'')))
               else ([], Some err)
           | _ \<Rightarrow> ([], Some err))
      | Inr service \<Rightarrow>
          if selectDefault service = [] then
            ([], Some (ErrorString (''module: could not determine default version for module '' @
               [CHR 0x27] @ (if m = [] then getModuleorDefault (Getenv w) else m) @ [CHR 0x27])))
          else (selectDefault service, None))"
  using assms getAdminService_ok[of w "''get_default_version''"]
  by (simp add: DefaultVersion_def Let_def split: sum.splits)

lemma DefaultVersion_modern_fetched:
  assumes "useAdminAPI (Getenv w)"
    and "NewService w ''appengine-modules-api-go-client/get_default_version'' = None"
    and "Services_Get w \<lparr>UserAgent = ''appengine-modules-api-go-client/get_default_version''\<rparr>
           (getProjectID (Getenv w)) (if m = [] then getModuleorDefault (Getenv w) else m)
         = Inr service"
    and "selectDefault service \<noteq> []"
  shows "snd (DefaultVersion w m) = (selectDefault service, None)"
  using assms by (simp add: DefaultVersion_modern)

text \<open>
  C1. On the modern path, with the client created and the service fetched with a split
  whose allocation map is there, \<open>DefaultVersion\<close> selects and returns, with no error:
  the version of the first entry, in the order of the enumeration, whose allocation
  equals \<^verbatim>\<open>1.0\<close>, when there is one; and otherwise, when some allocation lies above the
  \<^verbatim>\<open>-1.0\<close> the loop starts from (in a map of fractions between 0 and 1: when the map is
  not empty), a version of the map whose allocation no entry exceeds and whose id is the
  smallest among the entries with that allocation. A selected version is returned unless
  its id is the empty string. When no allocation equals \<^verbatim>\<open>1.0\<close> or lies above \<^verbatim>\<open>-1.0\<close>,
  nothing is selected and the error of C4 is returned.
\<close>

theorem DefaultVersion_selects:
  assumes "useAdminAPI (Getenv w)"
    and "NewService w ''appengine-modules-api-go-client/get_default_version'' = None"
    and "Services_Get w \<lparr>UserAgent = ''appengine-modules-api-go-client/get_default_version''\<rparr>
           (getProjectID (Getenv w)) (if m = [] then getModuleorDefault (Getenv w) else m)
         = Inr service"
    and "Split service = Some split" and "Allocations split = Some allocations"
  shows "(\<forall>v a. find (\<lambda>(v, a). f64_eq a (Fin 1)) allocations = Some (v, a) \<longrightarrow>
            selectDefault service = v
            \<and> (v \<noteq> [] \<longrightarrow> snd (DefaultVersion w m) = (v, None)))
       \<and> (find (\<lambda>(v, a). f64_eq a (Fin 1)) allocations = None \<and>
            (\<exists>(v, a) \<in> set allocations. f64_gt a (Fin (- 1))) \<longrightarrow>
            (\<exists>v a. (v, a) \<in> set allocations \<and>
                 (\<forall>(v', a') \<in> set allocations. \<not> f64_gt a' a \<and> (a' = a \<longrightarrow> v \<le> v')) \<and>
                 selectDefault service = v \<and>
                 (v \<noteq> [] \<longrightarrow> snd (DefaultVersion w m) = (v, None))))
       \<and> (find (\<lambda>(v, a). f64_eq a (Fin 1)) allocations = None \<and>
            (\<forall>(v, a) \<in> set allocations. \<not> f64_gt a (Fin (- 1))) \<longrightarrow>
            selectDefault service = [] \<and>
            snd (DefaultVersion w m) =
              ([], Some (ErrorString (''module: could not determine default version for module '' @
                 [CHR 0x27] @ (if m = [] then getModuleorDefault (Getenv w) else m) @ [CHR 0x27]))))"
proof -
  have returned: "snd (DefaultVersion w m) = (selectDefault service, None)"
    if "selectDefault service \<noteq> []"
    using DefaultVersion_modern_fetched[OF assms(1-3) that] .
  have undetermined: "snd (DefaultVersion w m) =
              ([], Some (ErrorString (''module: could not determine default version for module '' @
                 [CHR 0x27] @ (if m = [] then getModuleorDefault (Getenv w) else m) @ [CHR 0x27])))"
    if "selectDefault service = []"
    unfolding DefaultVersion_modern[OF assms(1,2)] assms(3) using that by simp
  have sel: "selectDefault service = fst (rangeAllocations allocations ([], Fin (- 1)))"
    using assms(4,5) by (rule selectDefault_allocations)
  define R where "R = rangeAllocations allocations ([], Fin (- 1))"
  have 1: "selectDefault service = v \<and> (v \<noteq> [] \<longrightarrow> snd (DefaultVersion w m) = (v, None))"
    if "find (\<lambda>(v, a). f64_eq a (Fin 1)) allocations = Some (v, a)" for v a
  proof -
    from that have "fst (rangeAllocations allocations ([], Fin (- 1))) = v"
      by (rule rangeAllocations_break)
    with sel have s1: "selectDefault service = v" by simp
    from returned have "v \<noteq> [] \<longrightarrow> snd (DefaultVersion w m) = (v, None)"
      unfolding s1 by blast
    with s1 show ?thesis by (rule conjI)
  qed
  have best: "snd R \<noteq> NaN \<and> R \<in> insert ([], Fin (- 1)) (set allocations)
      \<and> beats R ([], Fin (- 1)) \<and> (\<forall>y \<in> set allocations. beats R y)"
    if "find (\<lambda>(v, a). f64_eq a (Fin 1)) allocations = None"
  proof -
    from that have no1: "\<forall>(v, a) \<in> set allocations. \<not> f64_eq a (Fin 1)"
      by (auto simp: find_None_iff)
    show ?thesis
      using rangeAllocations_best[OF no1, of "Fin (- 1)" "[]"] by (simp add: R_def)
  qed
  have 2: "\<exists>v a. (v, a) \<in> set allocations \<and>
                 (\<forall>(v', a') \<in> set allocations. \<not> f64_gt a' a \<and> (a' = a \<longrightarrow> v \<le> v')) \<and>
                 selectDefault service = v \<and>
                 (v \<noteq> [] \<longrightarrow> snd (DefaultVersion w m) = (v, None))"
    if h: "find (\<lambda>(v, a). f64_eq a (Fin 1)) allocations = None \<and>
            (\<exists>(v, a) \<in> set allocations. f64_gt a (Fin (- 1)))"
  proof -
    from h best have b: "snd R \<noteq> NaN" "R \<in> insert ([], Fin (- 1)) (set allocations)"
      "\<forall>y \<in> set allocations. beats R y" by simp_all
    from h obtain v0 a0 where in0: "(v0, a0) \<in> set allocations" and gt0: "f64_gt a0 (Fin (- 1))"
      by auto
    from b(3) in0 have "\<not> f64_gt a0 (snd R)" by (auto simp: beats_def)
    with gt0 have "R \<noteq> ([], Fin (- 1))" by auto
    with b(2) have mem: "(fst R, snd R) \<in> set allocations" by simp
    have mx: "\<forall>(v', a') \<in> set allocations. \<not> f64_gt a' (snd R) \<and> (a' = snd R \<longrightarrow> fst R \<le> v')"
      using b(3) by (auto simp: beats_def)
    have s: "selectDefault service = fst R" using sel by (simp add: R_def)
    have r: "fst R \<noteq> [] \<longrightarrow> snd (DefaultVersion w m) = (fst R, None)"
      using returned unfolding s by blast
    from mem mx s r show ?thesis by blast
  qed
  have 3: "selectDefault service = [] \<and>
            snd (DefaultVersion w m) =
              ([], Some (ErrorString (''module: could not determine default version for module '' @
                 [CHR 0x27] @ (if m = [] then getModuleorDefault (Getenv w) else m) @ [CHR 0x27])))"
    if h: "find (\<lambda>(v, a). f64_eq a (Fin 1)) allocations = None \<and>
            (\<forall>(v, a) \<in> set allocations. \<not> f64_gt a (Fin (- 1)))"
  proof -
    from h best have b: "snd R \<noteq> NaN" "R \<in> insert ([], Fin (- 1)) (set allocations)"
      "beats R ([], Fin (- 1))" by simp_all
    from b(2) h have "\<not> f64_gt (snd R) (Fin (- 1))" by auto
    moreover from b(3) have "\<not> f64_gt (Fin (- 1)) (snd R)" by (simp add: beats_def)
    ultimately have "snd R = Fin (- 1)" using b(1) f64_total[of "snd R" "Fin (- 1)"] by auto
    with b(3) have "fst R \<le> []" by (simp add: beats_def)
    then have "fst R = []" by simp
    with sel have s0: "selectDefault service = []" by (simp add: R_def)
    from s0 show ?thesis by (rule conjI) (rule undetermined[OF s0])
  qed
  from 1 2 3 show ?thesis by blast
qed

theorem DefaultVersion_selects_witness:
  "useAdminAPI (Getenv test_world)
   \<and> find (\<lambda>(v, a). f64_eq a (Fin 1)) [(''v1'', Fin 1), (''v2'', Fin 0)] = Some (''v1'', Fin 1)
   \<and> snd (DefaultVersion
        (test_world\<lparr>Services_Get := \<lambda>svc projectID module'. Inr \<lparr>Service.Id = module',
           Split = Some \<lparr>Allocations = Some [(''v1'', Fin 1), (''v2'', Fin 0)]\<rparr>\<rparr>\<rparr>)
        ''default'') = (''v1'', None)
   \<and> find (\<lambda>(v, a). f64_eq a (Fin 1)) [(''v1'', Fin (4 / 10)), (''v2'', Fin (6 / 10))] = None
   \<and> snd (DefaultVersion
        (test_world\<lparr>Services_Get := \<lambda>svc projectID module'. Inr \<lparr>Service.Id = module',
           Split = Some \<lparr>Allocations = Some [(''v1'', Fin (4 / 10)), (''v2'', Fin (6 / 10))]\<rparr>\<rparr>\<rparr>)
        ''default'') = (''v2'', None)
   \<and> find (\<lambda>(v, a). f64_eq a (Fin 1)) [(''version-b'', Fin (1 / 2)), (''version-a'', Fin (1 / 2))] = None
   \<and> snd (DefaultVersion
        (test_world\<lparr>Services_Get := \<lambda>svc projectID module'. Inr \<lparr>Service.Id = module',
           Split = Some \<lparr>Allocations = Some [(''version-b'', Fin (1 / 2)), (''version-a'', Fin (1 / 2))]\<rparr>\<rparr>\<rparr>)
        ''default'') = (''version-a'', None)"
proof -
  let ?a1 = "[(''v1'', Fin 1), (''v2'', Fin 0)]"
  let ?a2 = "[(''v1'', Fin (4 / 10)), (''v2'', Fin (6 / 10))]"
  let ?a3 = "[(''version-b'', Fin (1 / 2)), (''version-a'', Fin (1 / 2))]"
  let ?w = "\<lambda>al. test_world\<lparr>Services_Get := \<lambda>svc projectID module'. Inr \<lparr>Service.Id = module',
           Split = Some \<lparr>Allocations = Some al\<rparr>\<rparr>\<rparr>"
  have m: "useAdminAPI (Getenv test_world)" by (simp add: test_world_simps test_env_modern)
  have f1: "find (\<lambda>(v, a). f64_eq a (Fin 1)) ?a1 = Some (''v1'', Fin 1)"
    by (simp add: f64_eq_def)
  have f2: "find (\<lambda>(v, a). f64_eq a (Fin 1)) ?a2 = None"
    by (simp add: f64_eq_def)
  have f3: "find (\<lambda>(v, a). f64_eq a (Fin 1)) ?a3 = None"
    by (simp add: f64_eq_def)
  have 1: "snd (DefaultVersion (?w ?a1) ''default'') = (''v1'', None)"
    using DefaultVersion_selects[of "?w ?a1" "''default''"
        "\<lparr>Service.Id = ''default'', Split = Some \<lparr>Allocations = Some ?a1\<rparr>\<rparr>"
        "\<lparr>Allocations = Some ?a1\<rparr>" ?a1] f1
    by (simp add: test_world_simps test_env_modern)
  have 2: "snd (DefaultVersion (?w ?a2) ''default'') = (''v2'', None)"
    using DefaultVersion_selects[of "?w ?a2" "''default''"
        "\<lparr>Service.Id = ''default'', Split = Some \<lparr>Allocations = Some ?a2\<rparr>\<rparr>"
        "\<lparr>Allocations = Some ?a2\<rparr>" ?a2] f2
    by (auto simp: test_world_simps test_env_modern)
  have 3: "snd (DefaultVersion (?w ?a3) ''default'') = (''version-a'', None)"
    using DefaultVersion_selects[of "?w ?a3" "''default''"
        "\<lparr>Service.Id = ''default'', Split = Some \<lparr>Allocations = Some ?a3\<rparr>\<rparr>"
        "\<lparr>Allocations = Some ?a3\<rparr>" ?a3] f3
    by (auto simp: test_world_simps test_env_modern)
  from m f1 f2 f3 1 2 3 show ?thesis by (intro conjI)
qed

text \<open>
  C3. When the fetch of the service fails on the modern path, a \<^verbatim>\<open>*googleapi.Error\<close>
  with code 404 becomes the error \<^verbatim>\<open>module: Module '<module>' not found\<close>, with the
  module the call resolved, and every other error is returned as it came.
\<close>

theorem DefaultVersion_fetch_error:
  assumes "useAdminAPI (Getenv w)"
    and "NewService w ''appengine-modules-api-go-client/get_default_version'' = None"
    and "Services_Get w \<lparr>UserAgent = ''appengine-modules-api-go-client/get_default_version''\<rparr>
           (getProjectID (Getenv w)) (if m = [] then getModuleorDefault (Getenv w) else m)
         = Inl err"
  shows "((\<exists>msg. err = GoogleapiError 404 msg) \<longrightarrow>
            snd (DefaultVersion w m) =
              ([], Some (ErrorString (''module: Module '' @ [CHR 0x27] @
                 (if m = [] then getModuleorDefault (Getenv w) else m) @ [CHR 0x27] @ '' not found''))))
       \<and> ((\<nexists>msg. err = GoogleapiError 404 msg) \<longrightarrow> snd (DefaultVersion w m) = ([], Some err))"
  using assms by (cases err) (auto simp: DefaultVersion_modern)

theorem DefaultVersion_fetch_error_witness:
  "useAdminAPI (Getenv test_world)
   \<and> snd (DefaultVersion
        (test_world\<lparr>Services_Get := \<lambda>svc projectID module'. Inl (GoogleapiError 404 ''Not Found'')\<rparr>)
        ''missing-module'')
     = ([], Some (ErrorString
          (''module: Module '' @ [CHR 0x27] @ ''missing-module'' @ [CHR 0x27] @ '' not found'')))
   \<and> snd (DefaultVersion
        (test_world\<lparr>Services_Get := \<lambda>svc projectID module'. Inl (GoogleapiError 500 ''Internal'')\<rparr>)
        ''default'')
     = ([], Some (GoogleapiError 500 ''Internal''))"
  using DefaultVersion_fetch_error[of
      "test_world\<lparr>Services_Get := \<lambda>svc projectID module'. Inl (GoogleapiError 404 ''Not Found'')\<rparr>"
      "''missing-module''" "GoogleapiError 404 ''Not Found''"]
    DefaultVersion_fetch_error[of
      "test_world\<lparr>Services_Get := \<lambda>svc projectID module'. Inl (GoogleapiError 500 ''Internal'')\<rparr>"
      "''default''" "GoogleapiError 500 ''Internal''"]
  by (simp add: test_world_simps test_env_modern)

text \<open>
  C4. When the fetched service has no split, a split with a nil allocation map, or an
  empty allocation map, \<open>DefaultVersion\<close> returns the empty string and the error
  \<^verbatim>\<open>module: could not determine default version for module '<module>'\<close>.
\<close>

theorem DefaultVersion_no_allocations:
  assumes "useAdminAPI (Getenv w)"
    and "NewService w ''appengine-modules-api-go-client/get_default_version'' = None"
    and "Services_Get w \<lparr>UserAgent = ''appengine-modules-api-go-client/get_default_version''\<rparr>
           (getProjectID (Getenv w)) (if m = [] then getModuleorDefault (Getenv w) else m)
         = Inr service"
    and "Split service = None
         \<or> (\<exists>split. Split service = Some split
               \<and> (Allocations split = None \<or> Allocations split = Some []))"
  shows "snd (DefaultVersion w m) =
           ([], Some (ErrorString (''module: could not determine default version for module '' @
              [CHR 0x27] @ (if m = [] then getModuleorDefault (Getenv w) else m) @ [CHR 0x27])))"
proof -
  from assms(4) have "selectDefault service = []"
    by (auto simp: selectDefault_def)
  with assms(1-3) show ?thesis by (simp add: DefaultVersion_modern)
qed

theorem DefaultVersion_no_allocations_witness:
  "useAdminAPI (Getenv test_world)
   \<and> snd (DefaultVersion
        (test_world\<lparr>Services_Get := \<lambda>svc projectID module'.
           Inr \<lparr>Service.Id = module', Split = Some \<lparr>Allocations = Some []\<rparr>\<rparr>\<rparr>)
        ''default'')
     = ([], Some (ErrorString
          (''module: could not determine default version for module '' @
           [CHR 0x27] @ ''default'' @ [CHR 0x27])))"
  using DefaultVersion_no_allocations[of
      "test_world\<lparr>Services_Get := \<lambda>svc projectID module'.
           Inr \<lparr>Service.Id = module', Split = Some \<lparr>Allocations = Some []\<rparr>\<rparr>\<rparr>"
      "''default''" "\<lparr>Service.Id = ''default'', Split = Some \<lparr>Allocations = Some []\<rparr>\<rparr>"]
  by (simp add: test_world_simps test_env_modern)

text \<open>
  C2. On the modern path, with the version resource fetched, \<open>NumInstances\<close> returns
  the instance count of the manual scaling and no error when manual scaling is set, and
  the count 0 with the error \<^verbatim>\<open>module: version <version> is not using manual scaling\<close>
  when it is not; it returns without an error exactly when manual scaling is set.
\<close>

theorem NumInstances_modern:
  assumes "useAdminAPI (Getenv w)"
    and "NewService w ''appengine-modules-api-go-client/get_num_instances'' = None"
    and "Versions_Get w \<lparr>UserAgent = ''appengine-modules-api-go-client/get_num_instances''\<rparr>
           (getProjectID (Getenv w)) (if m = [] then getModuleorDefault (Getenv w) else m)
           (if ver = [] then VersionID w else ver)
         = Inr v"
  shows "(\<forall>ms. ManualScaling v = Some ms \<longrightarrow>
            snd (NumInstances w m ver) = Return (Instances ms, None))
       \<and> (ManualScaling v = None \<longrightarrow>
            snd (NumInstances w m ver) =
              Return (0, Some (ErrorString (''module: version '' @
                (if ver = [] then VersionID w else ver) @ '' is not using manual scaling''))))
       \<and> ((\<exists>n. snd (NumInstances w m ver) = Return (n, None)) \<longleftrightarrow> ManualScaling v \<noteq> None)"
  using assms getAdminService_ok[of w "''get_num_instances''"]
  by (auto simp: NumInstances_def Let_def split: option.splits)

theorem NumInstances_modern_witness:
  "useAdminAPI (Getenv test_world)
   \<and> snd (NumInstances
        (test_world\<lparr>Versions_Get := \<lambda>svc projectID module' version.
           Inr (Version_zero\<lparr>ManualScaling := Some \<lparr>Instances = 10\<rparr>\<rparr>)\<rparr>)
        ''default'' ''v1'')
     = Return (10, None)
   \<and> snd (NumInstances
        (test_world\<lparr>Versions_Get := \<lambda>svc projectID module' version.
           Inr (Version_zero\<lparr>BasicScaling := Some \<lparr>MaxInstances = 5\<rparr>\<rparr>)\<rparr>)
        ''default'' ''v2'')
     = Return (0, Some (ErrorString ''module: version v2 is not using manual scaling''))"
  using NumInstances_modern[of
      "test_world\<lparr>Versions_Get := \<lambda>svc projectID module' version.
           Inr (Version_zero\<lparr>ManualScaling := Some \<lparr>Instances = 10\<rparr>\<rparr>)\<rparr>"
      "''default''" "''v1''" "Version_zero\<lparr>ManualScaling := Some \<lparr>Instances = 10\<rparr>\<rparr>"]
    NumInstances_modern[of
      "test_world\<lparr>Versions_Get := \<lambda>svc projectID module' version.
           Inr (Version_zero\<lparr>BasicScaling := Some \<lparr>MaxInstances = 5\<rparr>\<rparr>)\<rparr>"
      "''default''" "''v2''" "Version_zero\<lparr>BasicScaling := Some \<lparr>MaxInstances = 5\<rparr>\<rparr>"]
  by (simp add: test_world_simps test_env_modern Version_zero_def)

text \<open>
  C10. On the legacy path, when the call \<^verbatim>\<open>GetNumInstances\<close> returns no error,
  \<open>NumInstances\<close> dereferences the instance count of the response as it is: it panics
  exactly when the count is absent, and returns the count otherwise.
\<close>

theorem NumInstancesLegacy_dereference:
  assumes "\<not> useAdminAPI (Getenv w)"
    and "Call_GetNumInstances w
           (GetNumInstancesRequest (if m \<noteq> [] then Some m else None)
              (if ver \<noteq> [] then Some ver else None))
         = (res_Instances, None)"
  shows "(snd (NumInstances w m ver) = Panic \<longleftrightarrow> res_Instances = None)
       \<and> (\<forall>n. res_Instances = Some n \<longrightarrow> snd (NumInstances w m ver) = Return (n, None))"
  using assms
  by (auto simp: NumInstances_def NumInstancesLegacy_def Let_def split: option.splits)

theorem NumInstancesLegacy_dereference_witness:
  "\<not> useAdminAPI (Getenv legacy_world)
   \<and> snd (NumInstances legacy_world ''test-module'' ''test-version'') = Return (3, None)
   \<and> snd (NumInstances (legacy_world\<lparr>Call_GetNumInstances := \<lambda>req. (None, None)\<rparr>)
        ''test-module'' ''test-version'') = Panic"
  using NumInstancesLegacy_dereference[of legacy_world "''test-module''" "''test-version''" "Some 3"]
    NumInstancesLegacy_dereference[of "legacy_world\<lparr>Call_GetNumInstances := \<lambda>req. (None, None)\<rparr>"
      "''test-module''" "''test-version''" None]
  by (simp add: legacy_world_simps empty_env_legacy)

section \<open>The requests of the modern path\<close>

lemma List_calls:
  assumes "useAdminAPI (Getenv w)"
  shows "fst (List w) =
    (case NewService w ''appengine-modules-api-go-client/get_modules'' of
       Some err \<Rightarrow> [AdminNewService ''appengine-modules-api-go-client/get_modules'']
     | None \<Rightarrow>
         [AdminNewService ''appengine-modules-api-go-client/get_modules'',
          ServicesList \<lparr>UserAgent = ''appengine-modules-api-go-client/get_modules''\<rparr>
            (getProjectID (Getenv w))])"
  using assms
  by (simp add: List_def getAdminService_def Let_def split: option.splits sum.splits)

lemma Versions_calls:
  assumes "useAdminAPI (Getenv w)"
  shows "fst (Versions w m) =
    (case NewService w ''appengine-modules-api-go-client/get_versions'' of
       Some err \<Rightarrow> [AdminNewService ''appengine-modules-api-go-client/get_versions'']
     | None \<Rightarrow>
         [AdminNewService ''appengine-modules-api-go-client/get_versions'',
          VersionsList \<lparr>UserAgent = ''appengine-modules-api-go-client/get_versions''\<rparr>
            (getProjectID (Getenv w)) (if m = [] then getModuleorDefault (Getenv w) else m)])"
  using assms
  by (simp add: Versions_def getAdminService_def Let_def split: option.splits sum.splits)

lemma NumInstances_calls:
  assumes "useAdminAPI (Getenv w)"
  shows "fst (NumInstances w m ver) =
    (case NewService w ''appengine-modules-api-go-client/get_num_instances'' of
       Some err \<Rightarrow> [AdminNewService ''appengine-modules-api-go-client/get_num_instances'']
     | None \<Rightarrow>
         [AdminNewService ''appengine-modules-api-go-client/get_num_instances'',
          VersionsGet \<lparr>UserAgent = ''appengine-modules-api-go-client/get_num_instances''\<rparr>
            (getProjectID (Getenv w)) (if m = [] then getModuleorDefault (Getenv w) else m)
            (if ver = [] then VersionID w else ver)])"
  using assms
  by (simp add: NumInstances_def getAdminService_def Let_def split: option.splits sum.splits)

lemma DefaultVersion_calls:
  assumes "useAdminAPI (Getenv w)"
  shows "fst (DefaultVersion w m) =
    (case NewService w ''appengine-modules-api-go-client/get_default_version'' of
       Some err \<Rightarrow> [AdminNewService ''appengine-modules-api-go-client/get_default_version'']
     | None \<Rightarrow>
         [AdminNewService ''appengine-modules-api-go-client/get_default_version'',
          ServicesGet \<lparr>UserAgent = ''appengine-modules-api-go-client/get_default_version''\<rparr>
            (getProjectID (Getenv w)) (if m = [] then getModuleorDefault (Getenv w) else m)])"
  using assms
  by (simp add: DefaultVersion_def getAdminService_def Let_def split: option.splits sum.splits)

lemma SetNumInstances_calls:
  assumes "useAdminAPI (Getenv w)"
  shows "fst (SetNumInstances w m ver n) =
    (case NewService w ''appengine-modules-api-go-client/set_num_instances'' of
       Some err \<Rightarrow> [AdminNewService ''appengine-modules-api-go-client/set_num_instances'']
     | None \<Rightarrow>
         [AdminNewService ''appengine-modules-api-go-client/set_num_instances'',
          VersionsPatch \<lparr>UserAgent = ''appengine-modules-api-go-client/set_num_instances''\<rparr>
            (getProjectID (Getenv w)) (if m = [] then getModuleorDefault (Getenv w) else m)
            (if ver = [] then VersionID w else ver)
            (Version_zero\<lparr>ManualScaling := Some \<lparr>Instances = n\<rparr>\<rparr>)
            ''manualScaling.instances''])"
  using assms
  by (simp add: SetNumInstances_def getAdminService_def Let_def split: option.splits)

lemma setServingStatus_calls:
  assumes "status = ''SERVING'' \<and> methodName = ''start_version''
         \<or> status = ''STOPPED'' \<and> methodName = ''stop_version''"
  shows "fst (setServingStatus w m ver status) =
    (case NewService w (''appengine-modules-api-go-client/'' @ methodName) of
       Some err \<Rightarrow> [AdminNewService (''appengine-modules-api-go-client/'' @ methodName)]
     | None \<Rightarrow>
         [AdminNewService (''appengine-modules-api-go-client/'' @ methodName),
          VersionsPatch \<lparr>UserAgent = ''appengine-modules-api-go-client/'' @ methodName\<rparr>
            (getProjectID (Getenv w)) (if m = [] then getModuleorDefault (Getenv w) else m)
            (if ver = [] then VersionID w else ver)
            (Version_zero\<lparr>ServingStatus := status\<rparr>)
            ''servingStatus''])"
  using assms
  by (auto simp: setServingStatus_def getAdminService_def Let_def split: option.splits)

lemma Start_calls:
  assumes "useAdminAPI (Getenv w)"
  shows "fst (Start w m ver) =
    (case NewService w ''appengine-modules-api-go-client/start_version'' of
       Some err \<Rightarrow> [AdminNewService ''appengine-modules-api-go-client/start_version'']
     | None \<Rightarrow>
         [AdminNewService ''appengine-modules-api-go-client/start_version'',
          VersionsPatch \<lparr>UserAgent = ''appengine-modules-api-go-client/start_version''\<rparr>
            (getProjectID (Getenv w)) (if m = [] then getModuleorDefault (Getenv w) else m)
            (if ver = [] then VersionID w else ver)
            (Version_zero\<lparr>ServingStatus := ''SERVING''\<rparr>)
            ''servingStatus''])"
  using assms setServingStatus_calls[of "''SERVING''" "''start_version''" w m ver]
  by (simp add: Start_def split: option.splits)

lemma Stop_calls:
  assumes "useAdminAPI (Getenv w)"
  shows "fst (Stop w m ver) =
    (case NewService w ''appengine-modules-api-go-client/stop_version'' of
       Some err \<Rightarrow> [AdminNewService ''appengine-modules-api-go-client/stop_version'']
     | None \<Rightarrow>
         [AdminNewService ''appengine-modules-api-go-client/stop_version'',
          VersionsPatch \<lparr>UserAgent = ''appengine-modules-api-go-client/stop_version''\<rparr>
            (getProjectID (Getenv w)) (if m = [] then getModuleorDefault (Getenv w) else m)
            (if ver = [] then VersionID w else ver)
            (Version_zero\<lparr>ServingStatus := ''STOPPED''\<rparr>)
            ''servingStatus''])"
  using assms setServingStatus_calls[of "''STOPPED''" "''stop_version''" w m ver]
  by (simp add: Stop_def split: option.splits)

lemma mask_paths_one:
  "mask_paths ''manualScaling.instances'' = [''manualScaling.instances'']"
  "mask_paths ''servingStatus'' = [''servingStatus'']"
  by simp_all

lemma request_tokens_calls:
  assumes "useAdminAPI (Getenv w)" and "\<forall>userAgent. NewService w userAgent = None"
  shows "request_tokens (calls w op) =
    [''appengine-modules-api-go-client/'' @
       (case op of
          OpList \<Rightarrow> ''get_modules''
        | OpNumInstances m ver \<Rightarrow> ''get_num_instances''
        | OpSetNumInstances m ver n \<Rightarrow> ''set_num_instances''
        | OpVersions m \<Rightarrow> ''get_versions''
        | OpDefaultVersion m \<Rightarrow> ''get_default_version''
        | OpStart m ver \<Rightarrow> ''start_version''
        | OpStop m ver \<Rightarrow> ''stop_version'')]"
  using assms
  by (cases op)
     (simp_all add: List_calls Versions_calls NumInstances_calls DefaultVersion_calls
        SetNumInstances_calls Start_calls Stop_calls request_tokens_def)

text \<open>
  C5. On the modern path the calls of \<open>SetNumInstances\<close>, \<open>Start\<close> and \<open>Stop\<close> are the
  creation of the client and, when it succeeds, one request: a patch of the version
  resource of the resolved project, module and version. Its update mask is
  \<^verbatim>\<open>manualScaling.instances\<close> for \<open>SetNumInstances\<close> and \<^verbatim>\<open>servingStatus\<close> for \<open>Start\<close> and
  \<open>Stop\<close>, each naming one field path, and its body is the zero version with that one
  field set: resetting the field gives the zero version back.
\<close>

theorem mutating_calls_patch_one_field:
  assumes "useAdminAPI (Getenv w)"
  shows "fst (SetNumInstances w m ver n) =
           (case NewService w ''appengine-modules-api-go-client/set_num_instances'' of
              Some err \<Rightarrow> [AdminNewService ''appengine-modules-api-go-client/set_num_instances'']
            | None \<Rightarrow>
                [AdminNewService ''appengine-modules-api-go-client/set_num_instances'',
                 VersionsPatch \<lparr>UserAgent = ''appengine-modules-api-go-client/set_num_instances''\<rparr>
                   (getProjectID (Getenv w)) (if m = [] then getModuleorDefault (Getenv w) else m)
                   (if ver = [] then VersionID w else ver)
                   (Version_zero\<lparr>ManualScaling := Some \<lparr>Instances = n\<rparr>\<rparr>)
                   ''manualScaling.instances''])
       \<and> fst (Start w m ver) =
           (case NewService w ''appengine-modules-api-go-client/start_version'' of
              Some err \<Rightarrow> [AdminNewService ''appengine-modules-api-go-client/start_version'']
            | None \<Rightarrow>
                [AdminNewService ''appengine-modules-api-go-client/start_version'',
                 VersionsPatch \<lparr>UserAgent = ''appengine-modules-api-go-client/start_version''\<rparr>
                   (getProjectID (Getenv w)) (if m = [] then getModuleorDefault (Getenv w) else m)
                   (if ver = [] then VersionID w else ver)
                   (Version_zero\<lparr>ServingStatus := ''SERVING''\<rparr>) ''servingStatus''])
       \<and> fst (Stop w m ver) =
           (case NewService w ''appengine-modules-api-go-client/stop_version'' of
              Some err \<Rightarrow> [AdminNewService ''appengine-modules-api-go-client/stop_version'']
            | None \<Rightarrow>
                [AdminNewService ''appengine-modules-api-go-client/stop_version'',
                 VersionsPatch \<lparr>UserAgent = ''appengine-modules-api-go-client/stop_version''\<rparr>
                   (getProjectID (Getenv w)) (if m = [] then getModuleorDefault (Getenv w) else m)
                   (if ver = [] then VersionID w else ver)
                   (Version_zero\<lparr>ServingStatus := ''STOPPED''\<rparr>) ''servingStatus''])
       \<and> mask_paths ''manualScaling.instances'' = [''manualScaling.instances'']
       \<and> mask_paths ''servingStatus'' = [''servingStatus'']
       \<and> (Version_zero\<lparr>ManualScaling := Some \<lparr>Instances = n\<rparr>\<rparr>)\<lparr>ManualScaling := None\<rparr>
           = Version_zero
       \<and> (Version_zero\<lparr>ServingStatus := ''SERVING''\<rparr>)\<lparr>ServingStatus := []\<rparr> = Version_zero
       \<and> (Version_zero\<lparr>ServingStatus := ''STOPPED''\<rparr>)\<lparr>ServingStatus := []\<rparr> = Version_zero"
proof -
  have reset:
    "(Version_zero\<lparr>ManualScaling := Some \<lparr>Instances = n\<rparr>\<rparr>)\<lparr>ManualScaling := None\<rparr> = Version_zero"
    "(Version_zero\<lparr>ServingStatus := ''SERVING''\<rparr>)\<lparr>ServingStatus := []\<rparr> = Version_zero"
    "(Version_zero\<lparr>ServingStatus := ''STOPPED''\<rparr>)\<lparr>ServingStatus := []\<rparr> = Version_zero"
    by (simp_all add: Version_zero_def)
  from SetNumInstances_calls[OF assms, of m ver n] Start_calls[OF assms, of m ver]
    Stop_calls[OF assms, of m ver] mask_paths_one reset
  show ?thesis by (intro conjI)
qed

theorem mutating_calls_patch_one_field_witness:
  "useAdminAPI (Getenv test_world)
   \<and> fst (SetNumInstances test_world ''default'' ''v1'' 10) =
       [AdminNewService ''appengine-modules-api-go-client/set_num_instances'',
        VersionsPatch \<lparr>UserAgent = ''appengine-modules-api-go-client/set_num_instances''\<rparr>
          ''test-project'' ''default'' ''v1''
          (Version_zero\<lparr>ManualScaling := Some \<lparr>Instances = 10\<rparr>\<rparr>) ''manualScaling.instances'']
   \<and> fst (Start test_world ''my-module'' [])  =
       [AdminNewService ''appengine-modules-api-go-client/start_version'',
        VersionsPatch \<lparr>UserAgent = ''appengine-modules-api-go-client/start_version''\<rparr>
          ''test-project'' ''my-module'' ''test-version''
          (Version_zero\<lparr>ServingStatus := ''SERVING''\<rparr>) ''servingStatus'']"
  using mutating_calls_patch_one_field[of test_world "''default''" "''v1''" 10]
    mutating_calls_patch_one_field[of test_world "''my-module''" "[]" 10]
  by (simp add: test_world_simps test_env_modern getProjectID_explicit test_env_def)

text \<open>
  C6. On the modern path, with the client created, \<open>Start\<close> sends one update whose
  serving status is \<^verbatim>\<open>SERVING\<close> and \<open>Stop\<close> one whose serving status is \<^verbatim>\<open>STOPPED\<close>;
  every operation sends one request, and the user agents of two requests are equal
  exactly when the two operations are the same function: the seven tokens are pairwise
  distinct.
\<close>

theorem serving_status_and_tokens:
  assumes "useAdminAPI (Getenv w)" and "\<forall>userAgent. NewService w userAgent = None"
    and "useAdminAPI (Getenv w')" and "\<forall>userAgent. NewService w' userAgent = None"
  shows "map ServingStatus (sent_updates (fst (Start w m ver))) = [''SERVING'']
       \<and> map ServingStatus (sent_updates (fst (Stop w m ver))) = [''STOPPED'']
       \<and> length (request_tokens (calls w op)) = 1
       \<and> (request_tokens (calls w op) = request_tokens (calls w' op')
            \<longleftrightarrow> operation_name op = operation_name op')"
proof -
  have 1: "map ServingStatus (sent_updates (fst (Start w m ver))) = [''SERVING'']"
    using assms(1,2)
    by (simp add: Start_calls sent_updates_def Version_zero_def)
  have 2: "map ServingStatus (sent_updates (fst (Stop w m ver))) = [''STOPPED'']"
    using assms(1,2)
    by (simp add: Stop_calls sent_updates_def Version_zero_def)
  have 3: "length (request_tokens (calls w op)) = 1"
    by (simp add: request_tokens_calls[OF assms(1,2)])
  have 4: "request_tokens (calls w op) = request_tokens (calls w' op')
            \<longleftrightarrow> operation_name op = operation_name op'"
    unfolding request_tokens_calls[OF assms(1,2)] request_tokens_calls[OF assms(3,4)]
    by (cases op; cases op') simp_all
  from 1 2 3 4 show ?thesis by blast
qed

theorem serving_status_and_tokens_witness:
  "useAdminAPI (Getenv test_world)
   \<and> map ServingStatus (sent_updates (fst (Start test_world ''my-module'' ''v1''))) = [''SERVING'']
   \<and> map ServingStatus (sent_updates (fst (Stop test_world ''my-module'' ''v1''))) = [''STOPPED'']
   \<and> request_tokens (calls test_world (OpStart ''my-module'' ''v1''))
       \<noteq> request_tokens (calls test_world (OpStop ''my-module'' ''v1''))"
  using serving_status_and_tokens[of test_world test_world "''my-module''" "''v1''"
      "OpStart ''my-module'' ''v1''" "OpStop ''my-module'' ''v1''"]
  by (simp add: test_world_simps test_env_modern)

end
